theory Spec2Isabelle
  imports Complex_Main
begin

section \<open>The conversion pipeline of \<open>src/components/USFMConverter.tsx\<close>\<close>

text \<open>
  The development embeds \<open>convertToUSFM\<close> (lines 59 to 181 of the component) together
  with the parts of the JavaScript runtime it relies on: string trimming, substring
  search, global regular-expression matching, property access on parsed JSON, and the
  \<open>fetch\<close> call, which is an explicit transition on the state of the network.
\<close>

subsection \<open>Strings\<close>

text \<open>
  A JavaScript string is a sequence of code units; it is modelled as a \<open>string\<close>, so a
  code unit ranges over the 256 values of \<open>char\<close>. All string operations of the source
  (\<open>trim\<close>, \<open>includes\<close>, \<open>match\<close>, \<open>join\<close>, template literals) work code unit by code
  unit. The backslash cannot be written inside a string literal and is \<open>CHR 0x5C\<close>.
\<close>

abbreviation backslash :: char where
  "backslash \<equiv> CHR 0x5C"

abbreviation form_feed :: char where
  "form_feed \<equiv> CHR 0x0C"

text \<open>
  The white space and line terminators that \<open>String.prototype.trim\<close> strips, as far as
  they lie in the range of \<open>char\<close>: TAB, LF, VT, FF, CR, SPACE and NO-BREAK SPACE.
\<close>

definition isWhiteSpace :: "char \<Rightarrow> bool" where
  "isWhiteSpace c \<longleftrightarrow>
     c \<in> {CHR 0x09, CHR 0x0A, CHR 0x0B, CHR 0x0C, CHR 0x0D, CHR 0x20, CHR 0xA0}"

definition trim :: "string \<Rightarrow> string" where
  "trim s = rev (dropWhile isWhiteSpace (rev (dropWhile isWhiteSpace s)))"

fun startsWith :: "string \<Rightarrow> string \<Rightarrow> bool" where
  "startsWith s [] = True"
| "startsWith [] (m # ms) = False"
| "startsWith (c # s) (m # ms) = (c = m \<and> startsWith s ms)"

text \<open>\<open>s.includes(m)\<close> for two strings: \<open>m\<close> occurs in \<open>s\<close> as a substring.\<close>

fun includes_str :: "string \<Rightarrow> string \<Rightarrow> bool" where
  "includes_str [] m = (m = [])"
| "includes_str (c # s) m = (startsWith (c # s) m \<or> includes_str s m)"

text \<open>\<open>xs.join(sep)\<close> for an array of strings.\<close>

fun join :: "string \<Rightarrow> string list \<Rightarrow> string" where
  "join sep [] = []"
| "join sep [x] = x"
| "join sep (x # y # ys) = x @ sep @ join sep (y # ys)"

subsection \<open>Regular expressions\<close>

text \<open>
  \<open>new RegExp(pattern, 'g')\<close> compiles the pattern text. The fragment modelled here
  covers every pattern the source builds: a sequence of single characters, each written
  literally or as an escape, each optionally followed by the greedy quantifier \<open>*\<close>.
  The flags are just \<open>g\<close>, so the pattern is read by the non-Unicode grammar, where
  a backslash before a character without a special meaning denotes that character.
\<close>

datatype atom = Lit char | Star char

datatype token = TChar char | TStar

definition isHexDigit :: "char \<Rightarrow> bool" where
  "isHexDigit c \<longleftrightarrow> c \<in> set ''0123456789abcdefABCDEF''"

text \<open>
  The character denoted by a backslash followed by \<open>e\<close>, where \<open>rest\<close> is the pattern
  text after \<open>e\<close>: the control escapes, then the identity escapes. \<open>None\<close> is an escape
  outside the fragment (character classes, assertions, back references, control
  letters, hexadecimal and Unicode escapes).
\<close>

definition escape :: "char \<Rightarrow> string \<Rightarrow> char option" where
  "escape e rest =
     (if e = CHR ''f'' then Some form_feed
      else if e = CHR ''n'' then Some (CHR 0x0A)
      else if e = CHR ''r'' then Some (CHR 0x0D)
      else if e = CHR ''t'' then Some (CHR 0x09)
      else if e = CHR ''v'' then Some (CHR 0x0B)
      else if e \<in> set ''dDsSwWbBcuk0123456789'' then None
      else if e = CHR ''x'' then
        (case rest of
           h1 # h2 # _ \<Rightarrow> if isHexDigit h1 \<and> isHexDigit h2 then None else Some e
         | _ \<Rightarrow> Some e)
      else Some e)"

definition isSyntaxCharacter :: "char \<Rightarrow> bool" where
  "isSyntaxCharacter c \<longleftrightarrow> c \<in> set ''^$.*+?()[]{}|'' \<or> c = backslash"

fun tokens :: "string \<Rightarrow> token list option" where
  "tokens [] = Some []"
| "tokens [c] =
     (if c = CHR ''*'' then Some [TStar]
      else if isSyntaxCharacter c then None
      else Some [TChar c])"
| "tokens (c # e # rest) =
     (if c = backslash then
        (case escape e rest of
           None \<Rightarrow> None
         | Some ch \<Rightarrow> map_option ((#) (TChar ch)) (tokens rest))
      else if c = CHR ''*'' then map_option ((#) TStar) (tokens (e # rest))
      else if isSyntaxCharacter c then None
      else map_option ((#) (TChar c)) (tokens (e # rest)))"

fun atoms :: "token list \<Rightarrow> atom list option" where
  "atoms [] = Some []"
| "atoms (TStar # ts) = None"
| "atoms (TChar c # TStar # ts) = map_option ((#) (Star c)) (atoms ts)"
| "atoms (TChar c # ts) = map_option ((#) (Lit c)) (atoms ts)"

text \<open>
  \<open>new RegExp(pattern, 'g')\<close>: \<open>None\<close> when the pattern is not in the fragment (which
  includes the patterns JavaScript rejects, such as a quantifier with nothing to
  repeat).
\<close>

definition new_RegExp :: "string \<Rightarrow> atom list option" where
  "new_RegExp pattern = (case tokens pattern of None \<Rightarrow> None | Some ts \<Rightarrow> atoms ts)"

text \<open>
  The backtracking matcher at one position: the length of the match of the atoms
  against a prefix of the text, a starred atom taking as many repetitions as it can
  and giving them back one by one when the rest of the pattern fails.
\<close>

fun match_at :: "atom list \<Rightarrow> string \<Rightarrow> nat option" where
  "match_at [] s = Some 0"
| "match_at (Lit c # r) [] = None"
| "match_at (Lit c # r) (d # s) = (if c = d then map_option Suc (match_at r s) else None)"
| "match_at (Star c # r) [] = match_at r []"
| "match_at (Star c # r) (d # s) =
     (if c = d then
        (case match_at (Star c # r) s of
           Some n \<Rightarrow> Some (Suc n)
         | None \<Rightarrow> match_at r (d # s))
      else match_at r (d # s))"

text \<open>
  The loop of \<open>String.prototype.match\<close> for a global expression, on the text from
  \<open>lastIndex\<close> onwards. A failed attempt moves one code unit on; a match is recorded
  and the search resumes at its end, or one code unit further when the match is
  empty; the search stops once \<open>lastIndex\<close> has passed the end of the text.
\<close>

fun exec_all :: "atom list \<Rightarrow> string \<Rightarrow> string list" where
  "exec_all r [] = (case match_at r [] of None \<Rightarrow> [] | Some n \<Rightarrow> [[]])"
| "exec_all r (c # s) =
     (case match_at r (c # s) of
        None \<Rightarrow> exec_all r s
      | Some 0 \<Rightarrow> [] # exec_all r s
      | Some (Suc k) \<Rightarrow> take (Suc k) (c # s) # exec_all r (drop k s))"

text \<open>\<open>s.match(re)\<close>: the array of all matches, or \<open>null\<close> when there is none.\<close>

definition match_str :: "string \<Rightarrow> atom list \<Rightarrow> string list option" where
  "match_str s re = (case exec_all re s of [] \<Rightarrow> None | m # ms \<Rightarrow> Some (m # ms))"

text \<open>\<open>(s.match(re) || []).length\<close>\<close>

definition match_count :: "string \<Rightarrow> atom list \<Rightarrow> nat" where
  "match_count s re = length (case match_str s re of None \<Rightarrow> [] | Some ms \<Rightarrow> ms)"

subsection \<open>Parsed JSON and the operators applied to it\<close>

text \<open>
  The value that \<open>response.json()\<close> resolves to. An object is the list of its own
  properties, looked up by name; a number carries the value of the parsed number. A
  value read out of the data is a \<open>json option\<close>, \<open>None\<close> being \<open>undefined\<close>.
\<close>

datatype json =
    JNull
  | JBool bool
  | JNum real
  | JStr string
  | JArr "json list"
  | JObj "(string \<times> json) list"

text \<open>
  The texts that the JavaScript engine composes itself are not fixed by the language;
  they are named here and the environment maps each to its text:
  the \<open>TypeError\<close> of \<open>name in v\<close> for a primitive \<open>v\<close>, the \<open>TypeError\<close> of calling the
  method \<open>v.name\<close> that \<open>v\<close> does not have, the \<open>SyntaxError\<close> of a pattern that does not
  compile, and the message that \<open>throw new Error(v)\<close> leaves in the error that is caught
  when \<open>v\<close> is not a string (the conversion of \<open>v\<close> to a string, or the message of the
  \<open>TypeError\<close> which that conversion raises).
\<close>

datatype engine_message =
    InOperatorError string json
  | NotAFunctionError string json
  | InvalidRegExpError string
  | ErrorCtorText json

text \<open>
  What a \<open>throw\<close> or a rejected promise carries: an instance of \<open>Error\<close> with its
  message, or some other value.
\<close>

datatype thrown = ErrorObj string | NonError

text \<open>
  What the function reads from its surroundings: the \<open>apiKey\<close> property of the
  component, \<open>window.location.origin\<close>, and the engine's own message texts.
\<close>

record environment =
  apiKey :: string
  origin :: string
  engine_text :: "engine_message \<Rightarrow> string"

text \<open>Truthiness of a value, as \<open>!\<close>, \<open>&&\<close> and \<open>? :\<close> test it.\<close>

fun truthy :: "json option \<Rightarrow> bool" where
  "truthy None = False"
| "truthy (Some JNull) = False"
| "truthy (Some (JBool b)) = b"
| "truthy (Some (JNum x)) = (x \<noteq> 0)"
| "truthy (Some (JStr s)) = (s \<noteq> [])"
| "truthy (Some (JArr xs)) = True"
| "truthy (Some (JObj kvs)) = True"

text \<open>The values that are objects to JavaScript: objects and arrays, not primitives.\<close>

fun isObject :: "json \<Rightarrow> bool" where
  "isObject (JObj kvs) = True"
| "isObject (JArr xs) = True"
| "isObject v = False"

text \<open>
  Whether a value has a property of the given name, for a name that neither
  \<open>Object.prototype\<close> nor \<open>Array.prototype\<close> defines and that is not an array index (the
  source asks for \<open>error\<close> and \<open>choices\<close>): only an object can, as one of its own
  properties.
\<close>

fun has_member :: "string \<Rightarrow> json \<Rightarrow> bool" where
  "has_member name (JObj kvs) = (map_of kvs name \<noteq> None)"
| "has_member name v = False"

text \<open>\<open>name in v\<close>, for such a name: on a primitive the operator throws.\<close>

definition in_operator :: "environment \<Rightarrow> string \<Rightarrow> json \<Rightarrow> thrown + bool" where
  "in_operator env name v =
     (if isObject v then Inr (has_member name v)
      else Inl (ErrorObj (engine_text env (InOperatorError name v))))"

text \<open>
  \<open>v.name\<close> on a value that is neither \<open>null\<close> nor \<open>undefined\<close>, for the names \<open>error\<close>,
  \<open>message\<close>, \<open>choices\<close> and \<open>content\<close>: only an object can have such a property.
\<close>

fun get_prop :: "json \<Rightarrow> string \<Rightarrow> json option" where
  "get_prop (JObj kvs) name = map_of kvs name"
| "get_prop v name = None"

text \<open>
  \<open>v[0]\<close> on a value that is neither \<open>null\<close> nor \<open>undefined\<close>: the first element of an
  array, the property \<open>0\<close> of an object, the first code unit of a string.
\<close>

fun get_index0 :: "json \<Rightarrow> json option" where
  "get_index0 (JArr []) = None"
| "get_index0 (JArr (x # xs)) = Some x"
| "get_index0 (JObj kvs) = map_of kvs ''0''"
| "get_index0 (JStr []) = None"
| "get_index0 (JStr (c # s)) = Some (JStr [c])"
| "get_index0 v = None"

text \<open>Optional chaining \<open>v?.name\<close> and \<open>v?.[0]\<close>: \<open>undefined\<close> when \<open>v\<close> is \<open>null\<close> or \<open>undefined\<close>.\<close>

fun opt_prop :: "json option \<Rightarrow> string \<Rightarrow> json option" where
  "opt_prop None name = None"
| "opt_prop (Some JNull) name = None"
| "opt_prop (Some v) name = get_prop v name"

fun opt_index0 :: "json option \<Rightarrow> json option" where
  "opt_index0 None = None"
| "opt_index0 (Some JNull) = None"
| "opt_index0 (Some v) = get_index0 v"

text \<open>The message of \<open>new Error(v)\<close>.\<close>

fun new_Error :: "environment \<Rightarrow> json \<Rightarrow> thrown" where
  "new_Error env (JStr s) = ErrorObj s"
| "new_Error env v = ErrorObj (engine_text env (ErrorCtorText v))"

subsection \<open>The completion service\<close>

datatype role = System | User | Assistant

record OpenRouterMessage =
  role :: role
  content :: string

text \<open>
  The request handed to \<open>fetch\<close>. The body is kept as the object given to
  \<open>JSON.stringify\<close>.
\<close>

record request =
  url :: string
  http_method :: string
  headers :: "(string \<times> string) list"
  body_model :: string
  body_messages :: "OpenRouterMessage list"

text \<open>
  The response that \<open>fetch\<close> resolves to: its status, and what \<open>await response.json()\<close>
  gives, the parsed body or the error of the rejected promise. \<open>response.ok\<close> is
  defined by the Fetch standard from the status.
\<close>

record response =
  status :: nat
  json_result :: "thrown + json"

definition ok :: "response \<Rightarrow> bool" where
  "ok r \<longleftrightarrow> 200 \<le> status r \<and> status r \<le> 299"

text \<open>
  The service answers a request from its current state \<open>'w\<close> and moves to a new state;
  \<open>Inl\<close> is a rejected \<open>fetch\<close> promise. The network records every request issued.
\<close>

type_synonym 'w service = "request \<Rightarrow> 'w \<Rightarrow> (thrown + response) \<times> 'w"

record 'w network =
  calls :: "request list"
  world :: 'w

definition fetch :: "'w service \<Rightarrow> request \<Rightarrow> 'w network \<Rightarrow> (thrown + response) \<times> 'w network" where
  "fetch svc req n =
     (case svc req (world n) of
        (outcome, w') \<Rightarrow> (outcome, \<lparr>calls = calls n @ [req], world = w'\<rparr>))"

subsection \<open>The conversion\<close>

text \<open>The content of the system message (the template literal of lines 69 to 94).\<close>

definition systemPrompt :: string where
  "systemPrompt = join [CHR 0x0A]
     [''You are a USFM (Unified Standard Format Markers) conversion expert. Your task is to convert study notes into valid USFM format.'',
      '''',
      ''Follow these strict guidelines:'',
      ''1. Always start with proper USFM headers:'',
      ''   - '' @ backslash # ''id for book identification'',
      ''   - '' @ backslash # ''h for running header'',
      ''   - '' @ backslash # ''mt for main title'',
      '''',
      ''2. Use correct markers:'',
      ''   - '' @ backslash # ''v for verse numbers'',
      ''   - '' @ backslash # ''p for paragraphs'',
      ''   - '' @ backslash # ''s1, '' @ backslash # ''s2 for section headings'',
      ''   - '' @ backslash # ''f ..'' @ backslash # ''f* for footnotes'',
      ''   - '' @ backslash # ''x ..'' @ backslash # ''x* for cross references'',
      ''   - '' @ backslash # ''esb ..'' @ backslash # ''esbe for study Bible notes'',
      ''   - '' @ backslash # ''cat for categories'',
      ''   - '' @ backslash # ''ms for major section headings'',
      ''   - '' @ backslash # ''xt for cross-reference target references'',
      '''',
      ''3. Ensure proper nesting and closing of markers'',
      ''4. Preserve all cross-references and study notes'',
      ''5. Format footnotes with '' @ backslash # ''fr for reference and '' @ backslash # ''ft for text'',
      ''6. Use '' @ backslash # ''p for new paragraphs, not line breaks'',
      ''7. Maintain hierarchical structure of headings'',
      '''',
      ''Output only valid USFM markup without explanations or comments.'']"

text \<open>The value of the function: the interface \<open>ConversionResult\<close> of \<open>src/types.ts\<close>.\<close>

record ConversionResult =
  success :: bool
  usfm :: "string option"
  error :: "string option"

definition messages :: "string \<Rightarrow> OpenRouterMessage list" where
  "messages text =
     [\<lparr>role = System, content = systemPrompt\<rparr>,
      \<lparr>role = User, content = text\<rparr>]"

definition completion_request :: "environment \<Rightarrow> string \<Rightarrow> request" where
  "completion_request env text =
     \<lparr>url = ''https://openrouter.ai/api/v1/chat/completions'',
      http_method = ''POST'',
      headers =
        [(''Content-Type'', ''application/json''),
         (''Authorization'', ''Bearer '' @ apiKey env),
         (''HTTP-Referer'', origin env),
         (''X-Title'', ''USFM Converter'')],
      body_model = ''anthropic/claude-3-opus'',
      body_messages = messages text\<rparr>"

text \<open>
  Lines 119 to 121: \<open>'error' in data && data.error?.message ? data.error.message :
  'Failed to convert text'\<close>.
\<close>

definition errorMessage :: "environment \<Rightarrow> json \<Rightarrow> thrown + json" where
  "errorMessage env data =
     (case in_operator env ''error'' data of
        Inl e \<Rightarrow> Inl e
      | Inr has_error \<Rightarrow>
          if has_error \<and> truthy (opt_prop (get_prop data ''error'') ''message'') then
            (case opt_prop (get_prop data ''error'') ''message'' of
               Some m \<Rightarrow> Inr m
             | None \<Rightarrow> Inr (JStr ''Failed to convert text''))
          else Inr (JStr ''Failed to convert text''))"

text \<open>Lines 123 to 137: the \<open>switch\<close> on the status; every branch throws.\<close>

definition status_error :: "environment \<Rightarrow> nat \<Rightarrow> json \<Rightarrow> thrown" where
  "status_error env st msg =
     (if st = 401 then ErrorObj ''Invalid API key. Please check your OpenRouter API key.''
      else if st = 429 then ErrorObj ''Rate limit exceeded. Please try again later.''
      else if st = 402 then
        ErrorObj ''Insufficient credits. Please check your OpenRouter account.''
      else if st = 500 \<or> st = 502 \<or> st = 503 \<or> st = 504 then
        ErrorObj ''OpenRouter API service error. Please try again later.''
      else new_Error env msg)"

definition requiredMarkers :: "string list" where
  "requiredMarkers = [backslash # ''id'', backslash # ''h'', backslash # ''mt'']"

definition markerPairs :: "(string \<times> string) list" where
  "markerPairs =
     [(backslash # ''f'', backslash # ''f*''),
      (backslash # ''x'', backslash # ''x*''),
      (backslash # ''esb'', backslash # ''esbe'')]"

text \<open>
  Line 148: \<open>requiredMarkers.filter(marker => !convertedText.includes(marker))\<close>. On a
  string \<open>includes\<close> is the substring test, on an array the membership test; any other
  value has no such method and the first call throws.
\<close>

definition missingMarkers :: "environment \<Rightarrow> json \<Rightarrow> thrown + string list" where
  "missingMarkers env convertedText =
     (case convertedText of
        JStr s \<Rightarrow> Inr (filter (\<lambda>marker. \<not> includes_str s marker) requiredMarkers)
      | JArr xs \<Rightarrow> Inr (filter (\<lambda>marker. JStr marker \<notin> set xs) requiredMarkers)
      | v \<Rightarrow> Inl (ErrorObj (engine_text env (NotAFunctionError ''includes'' v))))"

text \<open>
  Lines 161 to 168: the loop over the marker pairs, on a text. It returns at the first
  pair whose two counts differ.
\<close>

fun check_pairs :: "environment \<Rightarrow> string \<Rightarrow> (string \<times> string) list \<Rightarrow> thrown + unit" where
  "check_pairs env s [] = Inr ()"
| "check_pairs env s ((start, end') # pairs) =
     (case new_RegExp start of
        None \<Rightarrow> Inl (ErrorObj (engine_text env (InvalidRegExpError start)))
      | Some start_re \<Rightarrow>
          (case new_RegExp end' of
             None \<Rightarrow> Inl (ErrorObj (engine_text env (InvalidRegExpError end')))
           | Some end_re \<Rightarrow>
               (let startCount = match_count s start_re;
                    endCount = match_count s end_re
                in if startCount \<noteq> endCount then
                     Inl (ErrorObj (''Invalid USFM output: Mismatched '' @ start @ '' markers''))
                   else check_pairs env s pairs)))"

text \<open>
  Lines 146 to 173, from the extracted \<open>convertedText\<close> to the successful result. Only a
  string has the method \<open>match\<close>, so the loop over the pairs throws on an array.
\<close>

definition validate :: "environment \<Rightarrow> json \<Rightarrow> thrown + ConversionResult" where
  "validate env convertedText =
     (case missingMarkers env convertedText of
        Inl e \<Rightarrow> Inl e
      | Inr missing \<Rightarrow>
          if length missing > 0 then
            Inl (ErrorObj (''Invalid USFM output: Missing required markers: '' @
                           join '', '' missing))
          else
            (case convertedText of
               JStr s \<Rightarrow>
                 (case check_pairs env s markerPairs of
                    Inl e \<Rightarrow> Inl e
                  | Inr u \<Rightarrow> Inr \<lparr>success = True, usfm = Some s, error = None\<rparr>)
             | v \<Rightarrow> Inl (ErrorObj (engine_text env (NotAFunctionError ''match'' v)))))"

text \<open>\<open>data.choices?.[0]?.message?.content\<close>\<close>

definition first_content :: "json \<Rightarrow> json option" where
  "first_content data =
     opt_prop (opt_prop (opt_index0 (get_prop data ''choices'')) ''message'') ''content''"

text \<open>
  Lines 118 to 173: what the function does with the response once its body has been
  parsed to \<open>data\<close>. In \<open>!response.ok || 'error' in data\<close> the right operand is only
  evaluated for a response that is \<open>ok\<close>, and in line 140 the chain is only evaluated
  when \<open>choices\<close> is in the data. Line 144 reads the chain of line 140 again.
\<close>

definition handle_data :: "environment \<Rightarrow> response \<Rightarrow> json \<Rightarrow> thrown + ConversionResult" where
  "handle_data env resp data =
     (case (if \<not> ok resp then Inr True else in_operator env ''error'' data) of
        Inl e \<Rightarrow> Inl e
      | Inr True \<Rightarrow>
          (case errorMessage env data of
             Inl e \<Rightarrow> Inl e
           | Inr msg \<Rightarrow> Inl (status_error env (status resp) msg))
      | Inr False \<Rightarrow>
          (case in_operator env ''choices'' data of
             Inl e \<Rightarrow> Inl e
           | Inr has_choices \<Rightarrow>
               if \<not> has_choices \<or> \<not> truthy (first_content data) then
                 Inl (ErrorObj ''Invalid API response format'')
               else
                 (case first_content data of
                    None \<Rightarrow> Inl (ErrorObj ''Invalid API response format'')
                  | Some convertedText \<Rightarrow> validate env convertedText)))"

text \<open>
  The \<open>try\<close> block, lines 61 to 173. An exception is the value \<open>Inl\<close>; the network is
  passed through, and only the call of \<open>fetch\<close> changes it. The parameter \<open>retries\<close>
  (3 when the caller omits it) is not mentioned in the body.
\<close>

definition try_block ::
  "environment \<Rightarrow> 'w service \<Rightarrow> string \<Rightarrow> int \<Rightarrow> 'w network \<Rightarrow>
     (thrown + ConversionResult) \<times> 'w network" where
  "try_block env svc text retries n =
     (if trim text = [] then (Inl (ErrorObj ''Input text cannot be empty''), n)
      else
        (case fetch svc (completion_request env text) n of
           (Inl e, n') \<Rightarrow> (Inl e, n')
         | (Inr resp, n') \<Rightarrow>
             (case json_result resp of
                Inl e \<Rightarrow> (Inl e, n')
              | Inr data \<Rightarrow> (handle_data env resp data, n'))))"

text \<open>
  The \<open>catch\<close> block, lines 174 to 180: \<open>error instanceof Error ? error.message : 'An
  unknown error occurred'\<close>.
\<close>

definition catch_block :: "thrown \<Rightarrow> ConversionResult" where
  "catch_block e =
     \<lparr>success = False, usfm = None,
      error = Some (case e of ErrorObj m \<Rightarrow> m | NonError \<Rightarrow> ''An unknown error occurred'')\<rparr>"

text \<open>
  \<open>convertToUSFM\<close>: how the promise it returns settles, and the network after the call.
  \<open>Inr\<close> is the promise fulfilled with a result, \<open>Inl\<close> the promise rejected, that is an
  exception leaving the function. The \<open>try\<close> statement covers the whole body, and the
  \<open>catch\<close> block returns.
\<close>

definition convertToUSFM ::
  "environment \<Rightarrow> 'w service \<Rightarrow> string \<Rightarrow> int \<Rightarrow> 'w network \<Rightarrow>
     (thrown + ConversionResult) \<times> 'w network" where
  "convertToUSFM env svc text retries n =
     (case try_block env svc text retries n of
        (Inl e, n') \<Rightarrow> (Inr (catch_block e), n')
      | (Inr result, n') \<Rightarrow> (Inr result, n'))"

subsection \<open>Stub services and sample data\<close>

text \<open>
  A service is deterministic when its answer to a request does not depend on the state
  it is in.
\<close>

definition deterministic :: "'w service \<Rightarrow> bool" where
  "deterministic svc \<longleftrightarrow> (\<forall>req w w'. fst (svc req w) = fst (svc req w'))"

text \<open>A stateless stub that answers every request with the given status and body.\<close>

definition stub_service :: "nat \<Rightarrow> thrown + json \<Rightarrow> unit service" where
  "stub_service st body req w = (Inr \<lparr>status = st, json_result = body\<rparr>, w)"

text \<open>
  A stub that is not deterministic: its state counts the requests, the first is refused
  for its credential and the later ones for their rate.
\<close>

definition counting_service :: "nat service" where
  "counting_service req w =
     (Inr \<lparr>status = (if w = 0 then 401 else 429), json_result = Inr (JObj [])\<rparr>, Suc w)"

fun sample_text :: "engine_message \<Rightarrow> string" where
  "sample_text (InOperatorError name v) = ''Cannot use the in operator on a primitive''"
| "sample_text (NotAFunctionError name v) = ''not a function''"
| "sample_text (InvalidRegExpError p) = ''Invalid regular expression''"
| "sample_text (ErrorCtorText v) = ''[object Object]''"

definition sample_env :: environment where
  "sample_env = \<lparr>apiKey = ''sk-or-v1-0000'', origin = ''http://localhost:5173'',
                  engine_text = sample_text\<rparr>"

definition idle :: "unit network" where
  "idle = \<lparr>calls = [], world = ()\<rparr>"

text \<open>A body of the shape of \<open>OpenRouterResponse\<close> with one choice.\<close>

definition completion :: "string \<Rightarrow> json" where
  "completion text =
     JObj [(''id'', JStr ''gen-1''),
           (''choices'',
              JArr [JObj [(''message'',
                            JObj [(''content'', JStr text), (''role'', JStr ''assistant'')]),
                          (''finish_reason'', JStr ''stop'')]]),
           (''model'', JStr ''anthropic/claude-3-opus'')]"

text \<open>Three header lines and nothing else: no footnote, cross reference or study note.\<close>

definition headers_only :: string where
  "headers_only =
     backslash # ''id GEN'' @ CHR 0x0A # backslash # ''h Genesis'' @ CHR 0x0A #
     backslash # ''mt Genesis''"

text \<open>The headers and a cross reference that is opened and never closed.\<close>

definition open_cross_reference :: string where
  "open_cross_reference =
     headers_only @ CHR 0x0A # backslash # ''x - '' @ backslash # ''xo 1:1 '' @
     backslash # ''xt Jn 1:1''"

text \<open>The headers and two footnotes, the second of which is not closed.\<close>

definition two_footnotes_one_closed :: string where
  "two_footnotes_one_closed =
     headers_only @ CHR 0x0A # backslash # ''f + '' @ backslash # ''ft one'' @
     backslash # ''f* '' @ backslash # ''f + '' @ backslash # ''ft two''"

text \<open>A running header only: the book identification and the main title are missing.\<close>

definition running_header_only :: string where
  "running_header_only = backslash # ''h Genesis''"

text \<open>
  The number of places of a text at which a token stands literally, which is what the
  specification says the pair-balance check counts.
\<close>

fun occurrences :: "string \<Rightarrow> string \<Rightarrow> nat" where
  "occurrences tok [] = 0"
| "occurrences tok (c # s) = (if startsWith (c # s) tok then 1 else 0) + occurrences tok s"

section \<open>Properties\<close>

subsection \<open>Strings and regular expressions\<close>

lemma trim_eq_Nil_iff: "trim s = [] \<longleftrightarrow> (\<forall>c\<in>set s. isWhiteSpace c)"
proof
  assume "trim s = []"
  then have "dropWhile isWhiteSpace (rev (dropWhile isWhiteSpace s)) = []"
    by (simp add: trim_def)
  then have all: "\<forall>c\<in>set (dropWhile isWhiteSpace s). isWhiteSpace c"
    by (simp add: dropWhile_eq_Nil_conv)
  have "dropWhile isWhiteSpace s = []"
  proof (cases "dropWhile isWhiteSpace s")
    case Nil
    then show ?thesis .
  next
    case (Cons d ds)
    then have "\<not> isWhiteSpace d"
      using dropWhile_eq_Cons_conv[of isWhiteSpace s d ds] by simp
    with all Cons show ?thesis by simp
  qed
  then show "\<forall>c\<in>set s. isWhiteSpace c"
    by (simp add: dropWhile_eq_Nil_conv)
next
  assume "\<forall>c\<in>set s. isWhiteSpace c"
  then have "dropWhile isWhiteSpace s = []"
    by (simp add: dropWhile_eq_Nil_conv)
  then show "trim s = []"
    by (simp only: trim_def rev.simps dropWhile.simps)
qed

text \<open>What the six patterns of \<open>markerPairs\<close> compile to.\<close>

lemma new_RegExp_markers:
  "new_RegExp (backslash # ''f'') = Some [Lit form_feed]"
  "new_RegExp (backslash # ''f*'') = Some [Star form_feed]"
  "new_RegExp (backslash # ''x'') = Some [Lit CHR ''x'']"
  "new_RegExp (backslash # ''x*'') = Some [Star CHR ''x'']"
  "new_RegExp (backslash # ''esb'') = Some [Lit CHR ''e'', Lit CHR ''s'', Lit CHR ''b'']"
  "new_RegExp (backslash # ''esbe'') =
     Some [Lit CHR ''e'', Lit CHR ''s'', Lit CHR ''b'', Lit CHR ''e'']"
  by (simp_all add: new_RegExp_def escape_def isSyntaxCharacter_def)

lemma match_count_exec_all: "match_count s re = length (exec_all re s)"
  by (simp add: match_count_def match_str_def split: list.split)

text \<open>A one-character pattern is matched once per occurrence of the character.\<close>

lemma exec_all_Lit_length: "length (exec_all [Lit c] s) = length (filter (\<lambda>d. d = c) s)"
  by (induction s) auto

lemma match_at_Star_single: "match_at [Star c] s = Some (length (takeWhile ((=) c) s))"
  by (induction s) auto

lemma filter_dropWhile_other:
  "filter (\<lambda>d. d \<noteq> c) (dropWhile ((=) c) s) = filter (\<lambda>d. d \<noteq> c) s"
  by (induction s) auto

text \<open>
  A starred character matches the empty string wherever the character does not stand,
  and once more at the end of the text.
\<close>

lemma exec_all_Star_length:
  "length (filter (\<lambda>d. d \<noteq> c) s) + 1 \<le> length (exec_all [Star c] s)"
proof (induction s rule: length_induct)
  case (1 s)
  show ?case
  proof (cases s)
    case Nil
    then show ?thesis by simp
  next
    case (Cons d s')
    show ?thesis
    proof (cases "d = c")
      case False
      then have "exec_all [Star c] (d # s') = [] # exec_all [Star c] s'"
        by (simp add: match_at_Star_single del: match_at.simps)
      moreover have "length (filter (\<lambda>d. d \<noteq> c) s') + 1 \<le> length (exec_all [Star c] s')"
        using 1 Cons by simp
      ultimately show ?thesis using Cons False by simp
    next
      case True
      let ?k = "length (takeWhile ((=) c) s')"
      have "exec_all [Star c] (d # s') =
              take (Suc ?k) (d # s') # exec_all [Star c] (drop ?k s')"
        using True by (simp add: match_at_Star_single del: match_at.simps)
      moreover have "drop ?k s' = dropWhile ((=) c) s'"
        by (simp add: dropWhile_eq_drop)
      moreover have "length (filter (\<lambda>d. d \<noteq> c) (dropWhile ((=) c) s')) + 1
                       \<le> length (exec_all [Star c] (dropWhile ((=) c) s'))"
      proof -
        have "length (dropWhile ((=) c) s') < length s"
          using Cons length_dropWhile_le[of "(=) c" s'] by simp
        with 1 show ?thesis by blast
      qed
      ultimately show ?thesis using Cons True by (simp add: filter_dropWhile_other)
    qed
  qed
qed

lemma length_filter_mono:
  "(\<And>a. P a \<Longrightarrow> Q a) \<Longrightarrow> length (filter P xs) \<le> length (filter Q xs)"
  by (induction xs) auto

text \<open>
  The first pair needs more form feeds than other characters, the second more letters
  \<open>x\<close> than other characters: no text has both.
\<close>

lemma first_two_pairs_never_both_balanced:
  "\<not> (match_count s [Lit form_feed] = match_count s [Star form_feed] \<and>
      match_count s [Lit CHR ''x''] = match_count s [Star CHR ''x''])"
proof
  assume bal: "match_count s [Lit form_feed] = match_count s [Star form_feed] \<and>
      match_count s [Lit CHR ''x''] = match_count s [Star CHR ''x'']"
  let ?f = "length (filter (\<lambda>d. d = form_feed) s)"
  let ?x = "length (filter (\<lambda>d. d = CHR ''x'') s)"
  have f: "length (filter (\<lambda>d. d \<noteq> form_feed) s) + 1 \<le> ?f"
    using bal exec_all_Star_length[of form_feed s]
    by (simp add: match_count_exec_all exec_all_Lit_length)
  have x: "length (filter (\<lambda>d. d \<noteq> CHR ''x'') s) + 1 \<le> ?x"
    using bal exec_all_Star_length[of "CHR ''x''" s]
    by (simp add: match_count_exec_all exec_all_Lit_length)
  have "?x \<le> length (filter (\<lambda>d. d \<noteq> form_feed) s)"
    by (rule length_filter_mono) simp
  moreover have "?f \<le> length (filter (\<lambda>d. d \<noteq> CHR ''x'') s)"
    by (rule length_filter_mono) simp
  ultimately show False using f x by linarith
qed

lemma match_count_Lit: "match_count s [Lit c] = length (filter (\<lambda>d. d = c) s)"
  by (simp add: match_count_exec_all exec_all_Lit_length)

text \<open>Whatever the text, the loop over the pairs stops at the first or the second pair.\<close>

lemma check_pairs_markerPairs:
  "check_pairs env s markerPairs =
     Inl (ErrorObj (''Invalid USFM output: Mismatched '' @ backslash # ''f markers'')) \<or>
   check_pairs env s markerPairs =
     Inl (ErrorObj (''Invalid USFM output: Mismatched '' @ backslash # ''x markers''))"
  using first_two_pairs_never_both_balanced[of s]
  by (auto simp add: markerPairs_def new_RegExp_markers Let_def)

lemma check_pairs_never_passes: "check_pairs env s markerPairs \<noteq> Inr u"
  using check_pairs_markerPairs[of env s] by auto

lemma startsWith_iff: "startsWith s m \<longleftrightarrow> (\<exists>q. s = m @ q)"
  by (induction s m rule: startsWith.induct) auto

text \<open>\<open>includes_str\<close> is the substring test.\<close>

lemma includes_str_iff: "includes_str s m \<longleftrightarrow> (\<exists>p q. s = p @ m @ q)"
proof (induction s)
  case Nil
  then show ?case by simp
next
  case (Cons c s)
  have "(\<exists>p q. c # s = p @ m @ q) \<longleftrightarrow> (\<exists>q. c # s = m @ q) \<or> (\<exists>p q. s = p @ m @ q)"
  proof
    assume "\<exists>p q. c # s = p @ m @ q"
    then obtain p q where pq: "c # s = p @ m @ q" by blast
    show "(\<exists>q. c # s = m @ q) \<or> (\<exists>p q. s = p @ m @ q)"
    proof (cases p)
      case Nil
      with pq show ?thesis by auto
    next
      case (Cons a p')
      with pq have "s = p' @ m @ q" by simp
      then show ?thesis by blast
    qed
  next
    assume "(\<exists>q. c # s = m @ q) \<or> (\<exists>p q. s = p @ m @ q)"
    then show "\<exists>p q. c # s = p @ m @ q"
    proof
      assume "\<exists>q. c # s = m @ q"
      then obtain q where "c # s = [] @ m @ q" by auto
      then show ?thesis by blast
    next
      assume "\<exists>p q. s = p @ m @ q"
      then obtain p q where "c # s = (c # p) @ m @ q" by auto
      then show ?thesis by blast
    qed
  qed
  with Cons show ?case by (simp add: startsWith_iff)
qed

subsection \<open>The paths through \<open>convertToUSFM\<close>\<close>

lemma convertToUSFM_blank:
  "trim text = [] \<Longrightarrow>
   convertToUSFM env svc text retries n =
     (Inr (catch_block (ErrorObj ''Input text cannot be empty'')), n)"
  by (simp add: convertToUSFM_def try_block_def)

lemma convertToUSFM_rejected:
  "trim text \<noteq> [] \<Longrightarrow> svc (completion_request env text) (world n) = (Inl e, w') \<Longrightarrow>
   convertToUSFM env svc text retries n =
     (Inr (catch_block e), \<lparr>calls = calls n @ [completion_request env text], world = w'\<rparr>)"
  by (simp add: convertToUSFM_def try_block_def fetch_def)

lemma convertToUSFM_unparsed:
  "trim text \<noteq> [] \<Longrightarrow> svc (completion_request env text) (world n) = (Inr resp, w') \<Longrightarrow>
   json_result resp = Inl e \<Longrightarrow>
   convertToUSFM env svc text retries n =
     (Inr (catch_block e), \<lparr>calls = calls n @ [completion_request env text], world = w'\<rparr>)"
  by (simp add: convertToUSFM_def try_block_def fetch_def)

lemma convertToUSFM_parsed:
  "trim text \<noteq> [] \<Longrightarrow> svc (completion_request env text) (world n) = (Inr resp, w') \<Longrightarrow>
   json_result resp = Inr data \<Longrightarrow>
   convertToUSFM env svc text retries n =
     (case handle_data env resp data of Inl e \<Rightarrow> Inr (catch_block e) | Inr r \<Rightarrow> Inr r,
      \<lparr>calls = calls n @ [completion_request env text], world = w'\<rparr>)"
  by (simp add: convertToUSFM_def try_block_def fetch_def split: sum.splits)

lemma validate_fails: "\<exists>e. validate env v = Inl e"
  by (cases v)
    (auto simp add: validate_def missingMarkers_def check_pairs_never_passes split: sum.splits)

lemma handle_data_fails: "\<exists>e. handle_data env resp data = Inl e"
  using validate_fails[of env]
  by (auto simp add: handle_data_def split: sum.splits bool.splits option.splits)

lemma try_block_fails: "\<exists>e. fst (try_block env svc text retries n) = Inl e"
  using handle_data_fails[of env]
  by (auto simp add: try_block_def split: sum.splits prod.splits)

text \<open>
  The successful result is out of reach: whatever the input and the service, the
  function returns a failure.
\<close>

theorem convertToUSFM_never_succeeds:
  "\<exists>m. fst (convertToUSFM env svc text retries n) =
         Inr \<lparr>success = False, usfm = None, error = Some m\<rparr>"
  using try_block_fails[of env svc "text" retries n]
  by (auto simp add: convertToUSFM_def catch_block_def split: sum.splits prod.splits)

lemma trim_nonblank: "\<exists>c\<in>set text. \<not> isWhiteSpace c \<Longrightarrow> trim text \<noteq> []"
  by (simp add: trim_eq_Nil_iff)

text \<open>
  The bodies in which \<open>choices?.[0]?.message?.content\<close> is \<open>undefined\<close>, and the body in
  which it is a value.
\<close>

lemma first_content_no_choices:
  "map_of kvs ''choices'' = None \<Longrightarrow> first_content (JObj kvs) = None"
  by (simp add: first_content_def)

lemma first_content_empty_choices:
  "map_of kvs ''choices'' = Some (JArr []) \<Longrightarrow> first_content (JObj kvs) = None"
  by (simp add: first_content_def)

lemma first_content_no_message:
  "map_of kvs ''choices'' = Some (JArr (c # cs)) \<Longrightarrow> get_prop c ''message'' = None \<Longrightarrow>
   first_content (JObj kvs) = None"
  by (cases c) (simp_all add: first_content_def)

lemma first_content_no_content:
  "map_of kvs ''choices'' = Some (JArr (c # cs)) \<Longrightarrow> get_prop c ''message'' = Some m \<Longrightarrow>
   get_prop m ''content'' = None \<Longrightarrow> first_content (JObj kvs) = None"
  by (cases c; cases m) (simp_all add: first_content_def)

lemma first_content_present:
  "map_of kvs ''choices'' = Some (JArr (c # cs)) \<Longrightarrow> get_prop c ''message'' = Some m \<Longrightarrow>
   get_prop m ''content'' = Some v \<Longrightarrow> first_content (JObj kvs) = Some v"
  by (cases c; cases m) (simp_all add: first_content_def)

text \<open>A text without a form feed stops the loop at the footnote pair.\<close>

lemma no_form_feed_blames_footnote:
  assumes "form_feed \<notin> set s"
  shows "check_pairs env s markerPairs =
     Inl (ErrorObj (''Invalid USFM output: Mismatched '' @ backslash # ''f markers''))"
proof -
  have "filter (\<lambda>d. d = form_feed) s = []"
    using assms by (auto simp add: filter_empty_conv)
  then have "match_count s [Lit form_feed] = 0"
    by (simp add: match_count_Lit)
  moreover have "1 \<le> match_count s [Star form_feed]"
    using exec_all_Star_length[of form_feed s] by (simp add: match_count_exec_all)
  ultimately show ?thesis
    by (simp add: markerPairs_def new_RegExp_markers)
qed

text \<open>A response with status 401 whose body is an object or an array.\<close>

lemma handle_data_unauthorized:
  "status resp = 401 \<Longrightarrow> isObject data \<Longrightarrow>
   handle_data env resp data =
     Inl (ErrorObj ''Invalid API key. Please check your OpenRouter API key.'')"
  by (simp add: handle_data_def ok_def errorMessage_def in_operator_def status_error_def
      split: option.splits)

text \<open>Line 140, for a body without an \<open>error\<close> member.\<close>

lemma handle_data_malformed:
  "ok resp \<Longrightarrow> isObject data \<Longrightarrow> \<not> has_member ''error'' data \<Longrightarrow>
   \<not> truthy (first_content data) \<Longrightarrow>
   handle_data env resp data = Inl (ErrorObj ''Invalid API response format'')"
  by (simp add: handle_data_def in_operator_def)

text \<open>Lines 147 to 152, for a text that lacks a required marker.\<close>

lemma handle_data_missing_markers:
  assumes "ok resp" and "isObject data" and "\<not> has_member ''error'' data"
    and "first_content data = Some (JStr s)" and "s \<noteq> []"
    and "\<exists>marker\<in>set requiredMarkers. \<not> includes_str s marker"
  shows "handle_data env resp data =
     Inl (ErrorObj (''Invalid USFM output: Missing required markers: '' @
            join '', '' (filter (\<lambda>marker. \<not> includes_str s marker) requiredMarkers)))"
proof -
  have choices: "has_member ''choices'' data"
    using assms(4)
    by (cases data; cases "get_prop data ''choices''") (auto simp add: first_content_def)
  have missing: "filter (\<lambda>marker. \<not> includes_str s marker) requiredMarkers \<noteq> []"
    using assms(6) by (simp add: filter_empty_conv)
  show ?thesis
    using assms(1-5) choices missing
    by (simp add: handle_data_def in_operator_def validate_def missingMarkers_def)
qed

text \<open>
  With a deterministic service the result does not depend on the network the call
  starts from.
\<close>

lemma convertToUSFM_result_independent_of_network:
  assumes "deterministic svc"
  shows "fst (convertToUSFM env svc text retries n) = fst (convertToUSFM env svc text retries n')"
proof -
  have "fst (svc (completion_request env text) (world n)) =
        fst (svc (completion_request env text) (world n'))"
    using assms by (simp add: deterministic_def)
  then show ?thesis
    by (auto simp add: convertToUSFM_def try_block_def fetch_def split: prod.splits sum.splits)
qed

text \<open>The definitions that a run on concrete data unfolds.\<close>

lemmas run_defs = convertToUSFM_def try_block_def fetch_def stub_service_def idle_def trim_def
  isWhiteSpace_def handle_data_def ok_def in_operator_def completion_def first_content_def
  validate_def missingMarkers_def requiredMarkers_def markerPairs_def new_RegExp_markers
  match_count_exec_all catch_block_def errorMessage_def status_error_def sample_env_def

text \<open>
  The determinism of the service matters: with the counting stub, two calls on the same
  text give two different results.
\<close>

lemma counting_service_differs:
  "fst (convertToUSFM sample_env counting_service ''Genesis'' 3
          (snd (convertToUSFM sample_env counting_service ''Genesis'' 3
                  \<lparr>calls = [], world = 0\<rparr>))) \<noteq>
   fst (convertToUSFM sample_env counting_service ''Genesis'' 3 \<lparr>calls = [], world = 0\<rparr>)"
  by (simp add: run_defs counting_service_def)

text \<open>
  A text with two footnotes of which one is closed is rejected with the message that
  names the footnote marker, as is every text without a form feed.
\<close>

lemma two_footnotes_one_closed_rejected:
  "fst (convertToUSFM env (stub_service 200 (Inr (completion two_footnotes_one_closed)))
          ''Genesis'' retries idle) =
     Inr \<lparr>success = False, usfm = None,
          error = Some (''Invalid USFM output: Mismatched '' @ backslash # ''f markers'')\<rparr>"
  by (simp add: run_defs headers_only_def two_footnotes_one_closed_def)

subsection \<open>Claims\<close>

text \<open>
  C1, at an input that the claim covers. The service answers with status 200 and one
  choice whose content is the three header lines only: every required marker is there,
  and no footnote, cross-reference or study-note token occurs at all, so each pair is
  balanced. The claim has \<open>convertToUSFM\<close> succeed with that content; it fails with
  the message that the footnote markers are mismatched.
\<close>

theorem headers_only_rejected:
  "fst (convertToUSFM env (stub_service 200 (Inr (completion headers_only)))
          ''Genesis'' retries idle) =
     Inr \<lparr>success = False, usfm = None,
          error = Some (''Invalid USFM output: Mismatched '' @ backslash # ''f markers'')\<rparr>
   \<and> filter (\<lambda>marker. \<not> includes_str headers_only marker) requiredMarkers = []
   \<and> occurrences (backslash # ''f'') headers_only = occurrences (backslash # ''f*'') headers_only
   \<and> occurrences (backslash # ''x'') headers_only = occurrences (backslash # ''x*'') headers_only
   \<and> occurrences (backslash # ''esb'') headers_only =
       occurrences (backslash # ''esbe'') headers_only"
  by (simp add: run_defs headers_only_def)

text \<open>
  C2, at an input that the claim covers. The content has the three headers and one
  cross reference that is opened and not closed; the footnote tokens do not occur. The
  claim has the check count the tokens literally and report the cross-reference pair;
  the function reports the footnote pair.
\<close>

theorem open_cross_reference_blamed_on_footnote:
  "fst (convertToUSFM env (stub_service 200 (Inr (completion open_cross_reference)))
          ''Genesis'' retries idle) =
     Inr \<lparr>success = False, usfm = None,
          error = Some (''Invalid USFM output: Mismatched '' @ backslash # ''f markers'')\<rparr>
   \<and> occurrences (backslash # ''f'') open_cross_reference = 0
   \<and> occurrences (backslash # ''f*'') open_cross_reference = 0
   \<and> occurrences (backslash # ''x'') open_cross_reference = 3
   \<and> occurrences (backslash # ''x*'') open_cross_reference = 0"
  by (simp add: run_defs headers_only_def open_cross_reference_def)

text \<open>
  C3: for every input text that is empty or consists only of white space,
  \<open>convertToUSFM\<close> fails with the message \<open>Input text cannot be empty\<close> and leaves
  the network as it was: no request is issued.
\<close>

theorem blank_input_fails_without_request:
  assumes "\<forall>c\<in>set text. isWhiteSpace c"
  shows "convertToUSFM env svc text retries n =
           (Inr \<lparr>success = False, usfm = None, error = Some ''Input text cannot be empty''\<rparr>,
            n)"
  using assms by (simp add: convertToUSFM_blank trim_eq_Nil_iff catch_block_def)

text \<open>C3 on a space, a tabulator and a line feed, with no call recorded before or after.\<close>

theorem blank_input_fails_without_request_witness:
  "convertToUSFM sample_env (stub_service 200 (Inr (completion headers_only)))
      [CHR 0x20, CHR 0x09, CHR 0x0A] 3 idle =
     (Inr \<lparr>success = False, usfm = None, error = Some ''Input text cannot be empty''\<rparr>,
      \<lparr>calls = [], world = ()\<rparr>)"
proof -
  have h: "\<forall>c\<in>set [CHR 0x20, CHR 0x09, CHR 0x0A]. isWhiteSpace c"
    by (simp add: isWhiteSpace_def)
  show ?thesis
    using blank_input_fails_without_request[OF h, of sample_env
        "stub_service 200 (Inr (completion headers_only))" 3 idle]
    by (simp add: idle_def)
qed

text \<open>
  C4: for every input and every behaviour of the service, the promise of
  \<open>convertToUSFM\<close> is fulfilled, never rejected, with a result in which exactly one
  of \<open>usfm\<close> and \<open>error\<close> is present, in agreement with \<open>success\<close>; and whenever the
  \<open>try\<close> block throws, the result is the failure that carries the message of the
  thrown error (the fixed text \<open>An unknown error occurred\<close> when what was thrown is
  not an \<open>Error\<close> and so has no message).
\<close>

theorem convertToUSFM_returns_one_variant:
  "\<exists>r. fst (convertToUSFM env svc text retries n) = Inr r \<and>
        (success r \<longrightarrow> usfm r \<noteq> None \<and> error r = None) \<and>
        (\<not> success r \<longrightarrow> usfm r = None \<and> error r \<noteq> None) \<and>
        (\<forall>m. fst (try_block env svc text retries n) = Inl (ErrorObj m) \<longrightarrow>
              r = \<lparr>success = False, usfm = None, error = Some m\<rparr>) \<and>
        (fst (try_block env svc text retries n) = Inl NonError \<longrightarrow>
              r = \<lparr>success = False, usfm = None, error = Some ''An unknown error occurred''\<rparr>)"
proof -
  obtain e where e: "fst (try_block env svc text retries n) = Inl e"
    using try_block_fails by blast
  then have "fst (convertToUSFM env svc text retries n) = Inr (catch_block e)"
    by (cases "try_block env svc text retries n") (simp add: convertToUSFM_def)
  with e show ?thesis
    by (cases e) (simp_all add: catch_block_def)
qed

text \<open>
  C4 on a response whose body is \<open>null\<close>: the \<open>in\<close> operator throws inside the \<open>try\<close>
  block and the result carries the message of that error.
\<close>

theorem convertToUSFM_returns_one_variant_witness:
  "fst (convertToUSFM sample_env (stub_service 401 (Inr JNull)) ''Genesis'' 3 idle) =
     Inr \<lparr>success = False, usfm = None,
          error = Some ''Cannot use the in operator on a primitive''\<rparr>"
proof -
  have t: "fst (try_block sample_env (stub_service 401 (Inr JNull)) ''Genesis'' 3 idle) =
      Inl (ErrorObj ''Cannot use the in operator on a primitive'')"
    by (simp add: run_defs)
  show ?thesis
    using convertToUSFM_returns_one_variant
      [of sample_env "stub_service 401 (Inr JNull)" "''Genesis''" 3 idle] t
    by auto
qed

text \<open>
  C5 fails as stated: the body is parsed before the status is looked at, so a response
  with status 401 whose body is not JSON ends in the failure that carries the message of
  the parse error.
\<close>

theorem unauthorized_unparsed_body:
  "fst (convertToUSFM sample_env
          (stub_service 401 (Inl (ErrorObj ''Unexpected end of JSON input'')))
          ''Genesis'' 3 idle) =
     Inr \<lparr>success = False, usfm = None, error = Some ''Unexpected end of JSON input''\<rparr>"
  by (simp add: run_defs)

text \<open>
  C5, amended: for every response with status 401 whose body parses to an object or an
  array, \<open>convertToUSFM\<close> fails with the message of the invalid API key, whatever that
  object or array contains.
\<close>

theorem unauthorized_reports_invalid_key:
  assumes "\<exists>c\<in>set text. \<not> isWhiteSpace c"
    and "svc (completion_request env text) (world n) = (Inr resp, w')"
    and "status resp = 401"
    and "json_result resp = Inr data"
    and "isObject data"
  shows "fst (convertToUSFM env svc text retries n) =
           Inr \<lparr>success = False, usfm = None,
                error = Some ''Invalid API key. Please check your OpenRouter API key.''\<rparr>"
  using assms
  by (simp add: convertToUSFM_parsed trim_nonblank handle_data_unauthorized catch_block_def)

text \<open>C5, amended, on a status 401 that comes with a complete completion body.\<close>

theorem unauthorized_reports_invalid_key_witness:
  "fst (convertToUSFM sample_env (stub_service 401 (Inr (completion headers_only)))
          ''Genesis'' 3 idle) =
     Inr \<lparr>success = False, usfm = None,
          error = Some ''Invalid API key. Please check your OpenRouter API key.''\<rparr>"
proof -
  let ?data = "completion headers_only"
  have h1: "\<exists>c\<in>set ''Genesis''. \<not> isWhiteSpace c"
    by (simp add: isWhiteSpace_def)
  have h2: "stub_service 401 (Inr ?data) (completion_request sample_env ''Genesis'')
              (world idle) =
            (Inr \<lparr>status = 401, json_result = Inr ?data\<rparr>, ())"
    by (simp add: stub_service_def)
  have h3: "status \<lparr>status = 401, json_result = Inr ?data\<rparr> = 401"
    by simp
  have h4: "json_result \<lparr>status = 401, json_result = Inr ?data\<rparr> = Inr ?data"
    by simp
  have h5: "isObject ?data"
    by (simp add: completion_def)
  show ?thesis
    by (rule unauthorized_reports_invalid_key
        [of "''Genesis''" "stub_service 401 (Inr ?data)" sample_env idle,
         OF h1 h2 h3 h4 h5])
qed

text \<open>
  C6 fails as stated: a body with an empty \<open>choices\<close> array that also has an \<open>error\<close>
  member is handled by the error branch of line 118, and with status 200 the failure
  carries the embedded message.
\<close>

theorem empty_choices_with_error_member:
  "fst (convertToUSFM sample_env
          (stub_service 200
             (Inr (JObj [(''error'', JObj [(''message'', JStr ''No credits'')]),
                         (''choices'', JArr [])])))
          ''Genesis'' 3 idle) =
     Inr \<lparr>success = False, usfm = None, error = Some ''No credits''\<rparr>"
  by (simp add: run_defs)

text \<open>
  C6, amended: for every response with a success status whose body parses to an object
  or an array without an \<open>error\<close> member, and in which
  \<open>choices?.[0]?.message?.content\<close> is missing or falsy (no \<open>choices\<close>, an empty array, no
  first choice, no message, no content), \<open>convertToUSFM\<close> fails with the message
  \<open>Invalid API response format\<close>.
\<close>

theorem malformed_response_rejected:
  assumes "\<exists>c\<in>set text. \<not> isWhiteSpace c"
    and "svc (completion_request env text) (world n) = (Inr resp, w')"
    and "ok resp"
    and "json_result resp = Inr data"
    and "isObject data"
    and "\<not> has_member ''error'' data"
    and "\<not> truthy (first_content data)"
  shows "fst (convertToUSFM env svc text retries n) =
           Inr \<lparr>success = False, usfm = None, error = Some ''Invalid API response format''\<rparr>"
  using assms
  by (simp add: convertToUSFM_parsed trim_nonblank handle_data_malformed catch_block_def)

text \<open>C6, amended, on the body \<open>{"choices": []}\<close>.\<close>

theorem malformed_response_rejected_witness:
  "fst (convertToUSFM sample_env (stub_service 200 (Inr (JObj [(''choices'', JArr [])])))
          ''Genesis'' 3 idle) =
     Inr \<lparr>success = False, usfm = None, error = Some ''Invalid API response format''\<rparr>"
proof -
  let ?data = "JObj [(''choices'', JArr [])]"
  have h1: "\<exists>c\<in>set ''Genesis''. \<not> isWhiteSpace c"
    by (simp add: isWhiteSpace_def)
  have h2: "stub_service 200 (Inr ?data) (completion_request sample_env ''Genesis'')
              (world idle) =
            (Inr \<lparr>status = 200, json_result = Inr ?data\<rparr>, ())"
    by (simp add: stub_service_def)
  have h3: "ok \<lparr>status = 200, json_result = Inr ?data\<rparr>"
    by (simp add: ok_def)
  have h4: "json_result \<lparr>status = 200, json_result = Inr ?data\<rparr> = Inr ?data"
    by simp
  have h5: "isObject ?data"
    by simp
  have h6: "\<not> has_member ''error'' ?data"
    by simp
  have h7: "\<not> truthy (first_content ?data)"
    by (simp add: first_content_def)
  show ?thesis
    by (rule malformed_response_rejected
        [of "''Genesis''" "stub_service 200 (Inr ?data)" sample_env idle,
         OF h1 h2 h3 h4 h5 h6 h7])
qed

text \<open>
  C7: for every candidate text, that is a non-empty string extracted from a response
  with a success status and no \<open>error\<close> member, that lacks one of the markers
  \<open>\id\<close>, \<open>\h\<close>, \<open>\mt\<close> as a substring, \<open>convertToUSFM\<close> fails, whatever the counts of
  the marker pairs are, with the message that lists exactly the missing markers, in
  their fixed order and separated by a comma and a space.
\<close>

theorem missing_markers_reported:
  assumes "\<exists>c\<in>set text. \<not> isWhiteSpace c"
    and "svc (completion_request env text) (world n) = (Inr resp, w')"
    and "ok resp"
    and "json_result resp = Inr data"
    and "isObject data"
    and "\<not> has_member ''error'' data"
    and "first_content data = Some (JStr s)"
    and "s \<noteq> []"
    and "\<exists>marker\<in>set [backslash # ''id'', backslash # ''h'', backslash # ''mt''].
           \<not> includes_str s marker"
  shows "fst (convertToUSFM env svc text retries n) =
           Inr \<lparr>success = False, usfm = None,
                error = Some (''Invalid USFM output: Missing required markers: '' @
                   join '', '' (filter (\<lambda>marker. \<not> includes_str s marker)
                                  [backslash # ''id'', backslash # ''h'', backslash # ''mt'']))\<rparr>"
  using assms handle_data_missing_markers[of resp data s env]
  by (simp add: convertToUSFM_parsed trim_nonblank catch_block_def requiredMarkers_def)

text \<open>
  C7 on a content that has the running header only: the message lists \<open>\id\<close> and
  \<open>\mt\<close>.
\<close>

theorem missing_markers_reported_witness:
  "fst (convertToUSFM sample_env (stub_service 200 (Inr (completion running_header_only)))
          ''Genesis'' 3 idle) =
     Inr \<lparr>success = False, usfm = None,
          error = Some (''Invalid USFM output: Missing required markers: '' @
                        backslash # ''id, '' @ backslash # ''mt'')\<rparr>"
proof -
  let ?data = "completion running_header_only"
  have h1: "\<exists>c\<in>set ''Genesis''. \<not> isWhiteSpace c"
    by (simp add: isWhiteSpace_def)
  have h2: "stub_service 200 (Inr ?data) (completion_request sample_env ''Genesis'')
              (world idle) =
            (Inr \<lparr>status = 200, json_result = Inr ?data\<rparr>, ())"
    by (simp add: stub_service_def)
  have h3: "ok \<lparr>status = 200, json_result = Inr ?data\<rparr>"
    by (simp add: ok_def)
  have h4: "json_result \<lparr>status = 200, json_result = Inr ?data\<rparr> = Inr ?data"
    by simp
  have h5: "isObject ?data"
    by (simp add: completion_def)
  have h6: "\<not> has_member ''error'' ?data"
    by (simp add: completion_def)
  have h7: "first_content ?data = Some (JStr running_header_only)"
    by (simp add: first_content_def completion_def)
  have h8: "running_header_only \<noteq> []"
    by (simp add: running_header_only_def)
  have h9: "\<exists>marker\<in>set [backslash # ''id'', backslash # ''h'', backslash # ''mt''].
              \<not> includes_str running_header_only marker"
    by (simp add: running_header_only_def)
  show ?thesis
    using missing_markers_reported
        [of "''Genesis''" "stub_service 200 (Inr ?data)" sample_env idle,
         OF h1 h2 h3 h4 h5 h6 h7 h8 h9, of 3]
    by (simp add: running_header_only_def)
qed

text \<open>
  C8 fails as stated: an input of one space is not empty, and \<open>convertToUSFM\<close> issues
  no request for it.
\<close>

theorem blank_input_issues_no_request:
  "[CHR 0x20] \<noteq> [] \<and>
   calls (snd (convertToUSFM sample_env (stub_service 200 (Inr (completion headers_only)))
                 [CHR 0x20] 3 idle)) = []"
  by (simp add: run_defs)

text \<open>
  C8, amended: for every input that has a character other than white space,
  \<open>convertToUSFM\<close> issues exactly one request, the completion request for that input,
  and what it returns is the same for every value of \<open>retries\<close>.
\<close>

theorem one_request_whatever_retries:
  assumes "\<exists>c\<in>set text. \<not> isWhiteSpace c"
  shows "calls (snd (convertToUSFM env svc text retries n)) =
           calls n @ [completion_request env text] \<and>
         (\<forall>retries'. convertToUSFM env svc text retries' n =
                      convertToUSFM env svc text retries n)"
proof
  have nb: "trim text \<noteq> []"
    using assms by (rule trim_nonblank)
  show "calls (snd (convertToUSFM env svc text retries n)) =
          calls n @ [completion_request env text]"
    using nb
    by (simp add: convertToUSFM_def try_block_def fetch_def split: prod.splits sum.splits)
  show "\<forall>retries'. convertToUSFM env svc text retries' n =
                    convertToUSFM env svc text retries n"
    by (simp add: convertToUSFM_def try_block_def)
qed

text \<open>C8, amended, on the input \<open>Genesis\<close> with 3 and with 0 retries.\<close>

theorem one_request_whatever_retries_witness:
  "calls (snd (convertToUSFM sample_env (stub_service 200 (Inr (completion headers_only)))
                 ''Genesis'' 3 idle)) =
     [completion_request sample_env ''Genesis''] \<and>
   convertToUSFM sample_env (stub_service 200 (Inr (completion headers_only)))
      ''Genesis'' 0 idle =
   convertToUSFM sample_env (stub_service 200 (Inr (completion headers_only)))
      ''Genesis'' 3 idle"
proof -
  have h: "\<exists>c\<in>set ''Genesis''. \<not> isWhiteSpace c"
    by (simp add: isWhiteSpace_def)
  show ?thesis
    using one_request_whatever_retries[OF h, of sample_env
        "stub_service 200 (Inr (completion headers_only))" 3 idle]
    by (simp add: idle_def)
qed

text \<open>
  C9: with a deterministic service, a second call of \<open>convertToUSFM\<close> on the same
  text, made on the network that the first call left, returns the result of the first.
\<close>

theorem repeated_call_same_result:
  assumes "deterministic svc"
  shows "fst (convertToUSFM env svc text retries (snd (convertToUSFM env svc text retries n))) =
         fst (convertToUSFM env svc text retries n)"
  using assms by (rule convertToUSFM_result_independent_of_network)

text \<open>C9 on the stateless stub.\<close>

theorem repeated_call_same_result_witness:
  "fst (convertToUSFM sample_env (stub_service 200 (Inr (completion running_header_only)))
          ''Genesis'' 3
          (snd (convertToUSFM sample_env
                  (stub_service 200 (Inr (completion running_header_only)))
                  ''Genesis'' 3 idle))) =
   fst (convertToUSFM sample_env (stub_service 200 (Inr (completion running_header_only)))
          ''Genesis'' 3 idle)"
proof -
  have h: "deterministic (stub_service 200 (Inr (completion running_header_only)))"
    by (simp add: deterministic_def stub_service_def)
  show ?thesis
    by (rule repeated_call_same_result[OF h])
qed

text \<open>
  C10 fails as stated: when the body also has an \<open>error\<close> member, the empty content is
  never looked at, and with status 200 the failure carries the default message of the
  error branch.
\<close>

theorem empty_content_with_error_member:
  "fst (convertToUSFM sample_env
          (stub_service 200
             (Inr (JObj [(''error'', JNull),
                         (''choices'',
                            JArr [JObj [(''message'', JObj [(''content'', JStr [])])]])])))
          ''Genesis'' 3 idle) =
     Inr \<lparr>success = False, usfm = None, error = Some ''Failed to convert text''\<rparr>"
  by (simp add: run_defs)

text \<open>
  C10, amended: for every response with a success status whose body has no \<open>error\<close>
  member and whose first choice has the empty string as its message content,
  \<open>convertToUSFM\<close> fails with the message \<open>Invalid API response format\<close>, the message
  for a content that is absent.
\<close>

theorem empty_content_is_malformed:
  assumes "\<exists>c\<in>set text. \<not> isWhiteSpace c"
    and "svc (completion_request env text) (world n) = (Inr resp, w')"
    and "ok resp"
    and "json_result resp = Inr data"
    and "isObject data"
    and "\<not> has_member ''error'' data"
    and "first_content data = Some (JStr [])"
  shows "fst (convertToUSFM env svc text retries n) =
           Inr \<lparr>success = False, usfm = None, error = Some ''Invalid API response format''\<rparr>"
  using assms
  by (simp add: convertToUSFM_parsed trim_nonblank handle_data_malformed catch_block_def)

text \<open>C10, amended, on a complete completion body whose content is the empty string.\<close>

theorem empty_content_is_malformed_witness:
  "fst (convertToUSFM sample_env (stub_service 200 (Inr (completion [])))
          ''Genesis'' 3 idle) =
     Inr \<lparr>success = False, usfm = None, error = Some ''Invalid API response format''\<rparr>"
proof -
  let ?data = "completion []"
  have h1: "\<exists>c\<in>set ''Genesis''. \<not> isWhiteSpace c"
    by (simp add: isWhiteSpace_def)
  have h2: "stub_service 200 (Inr ?data) (completion_request sample_env ''Genesis'')
              (world idle) =
            (Inr \<lparr>status = 200, json_result = Inr ?data\<rparr>, ())"
    by (simp add: stub_service_def)
  have h3: "ok \<lparr>status = 200, json_result = Inr ?data\<rparr>"
    by (simp add: ok_def)
  have h4: "json_result \<lparr>status = 200, json_result = Inr ?data\<rparr> = Inr ?data"
    by simp
  have h5: "isObject ?data"
    by (simp add: completion_def)
  have h6: "\<not> has_member ''error'' ?data"
    by (simp add: completion_def)
  have h7: "first_content ?data = Some (JStr [])"
    by (simp add: first_content_def completion_def)
  show ?thesis
    by (rule empty_content_is_malformed
        [of "''Genesis''" "stub_service 200 (Inr ?data)" sample_env idle,
         OF h1 h2 h3 h4 h5 h6 h7])
qed

end
